theory Spec2Isabelle
  imports Main
begin

section \<open>JavaScript values\<close>

text \<open>
  The client is TypeScript, so at run time every argument, every caught error and every
  parsed response body is a JavaScript value. The values modelled here are the ones that
  are trees of data: \<open>undefined\<close>, \<open>null\<close>, booleans, numbers, strings, arrays, plain
  objects (their own enumerable data properties, in property order) and \<open>Error\<close> objects
  (name and message). The client does no arithmetic: it converts a number to a string,
  tests it for truth and compares it with the empty string, so a number is represented
  by the text that \<open>Number.prototype.toString\<close> gives for it (\<open>10\<close>, \<open>-1.5\<close>,
  \<open>18446744073709552000\<close>, \<open>1e+21\<close>, \<open>NaN\<close>, \<open>Infinity\<close>; both zeros are \<open>0\<close>).
  Strings are sequences of code units below 256; functions, symbols, getters and cyclic
  objects are outside the model, so no property of an object is callable.
\<close>

datatype jsval =
    JUndefined
  | JNull
  | JBool bool
  | JNum string
  | JStr string
  | JArr "jsval list"
  | JObj "(string \<times> jsval) list"
  | JError string string

type_synonym obj = "(string \<times> jsval) list"

text \<open>A synchronous call either throws a value or completes; a promise is either
  rejected with a value or fulfilled.\<close>

datatype 'a completion = Throw jsval | Normal 'a

datatype 'a promise = Rejected jsval | Fulfilled 'a

subsection \<open>Numbers and characters as text\<close>

text \<open>A digit is looked up in the table of digits; the callers pass a value below 10
  (decimal) or below 16 (hexadecimal).\<close>

definition digit_char :: "nat \<Rightarrow> char" where
  "digit_char d = ''0123456789'' ! d"

function show_nat :: "nat \<Rightarrow> string" where
  "show_nat n = (if n < 10 then [digit_char n] else show_nat (n div 10) @ [digit_char (n mod 10)])"
  by pat_completeness auto
termination
  by (relation "measure id") auto

declare show_nat.simps [simp del]

definition is_digit :: "char \<Rightarrow> bool" where
  "is_digit c = (48 \<le> (of_char c :: nat) \<and> (of_char c :: nat) \<le> 57)"

definition read_nat :: "string \<Rightarrow> nat" where
  "read_nat s = foldl (\<lambda>n c. 10 * n + ((of_char c :: nat) - 48)) 0 s"

definition hex_upper :: "nat \<Rightarrow> char" where
  "hex_upper d = ''0123456789ABCDEF'' ! d"

definition hex_lower :: "nat \<Rightarrow> char" where
  "hex_lower d = ''0123456789abcdef'' ! d"

fun join :: "string \<Rightarrow> string list \<Rightarrow> string" where
  "join sep [] = []"
| "join sep [x] = x"
| "join sep (x # y # ys) = x @ sep @ join sep (y # ys)"

subsection \<open>Coercions: \<open>!v\<close>, \<open>String(v)\<close>, \<open>v == ''\<close>, \<open>v.message\<close>\<close>

fun truthy :: "jsval \<Rightarrow> bool" where
  "truthy JUndefined = False"
| "truthy JNull = False"
| "truthy (JBool b) = b"
| "truthy (JNum t) = (t \<noteq> ''0'' \<and> t \<noteq> ''NaN'')"
| "truthy (JStr s) = (s \<noteq> [])"
| "truthy (JArr xs) = True"
| "truthy (JObj ps) = True"
| "truthy (JError n m) = True"

text \<open>
  \<open>ToString\<close>, as \<open>String(v)\<close>, \<open>URLSearchParams.append\<close> and the comparison \<open>v == ''\<close>
  apply it. An array is its elements joined by commas, \<open>null\<close> and \<open>undefined\<close> elements
  as the empty string; an error is \<open>name: message\<close>; a plain object is
  \<open>[object Object]\<close>, unless it has an own property \<open>toString\<close>: that property is not
  callable, \<open>Object.prototype.valueOf\<close> gives the object back, and the conversion throws
  a \<open>TypeError\<close> (the text of that error is the engine's, here V8's). The conversion of
  an array throws when the conversion of an element does.
\<close>

fun sequence :: "string completion list \<Rightarrow> string list completion" where
  "sequence [] = Normal []"
| "sequence (Throw e # cs) = Throw e"
| "sequence (Normal s # cs) = (case sequence cs of Throw e \<Rightarrow> Throw e | Normal ss \<Rightarrow> Normal (s # ss))"

fun to_string :: "jsval \<Rightarrow> string completion" where
  "to_string JUndefined = Normal ''undefined''"
| "to_string JNull = Normal ''null''"
| "to_string (JBool b) = Normal (if b then ''true'' else ''false'')"
| "to_string (JNum t) = Normal t"
| "to_string (JStr s) = Normal s"
| "to_string (JArr xs) =
     (case sequence (map (\<lambda>x. if x = JUndefined \<or> x = JNull then Normal [] else to_string x) xs) of
        Throw e \<Rightarrow> Throw e
      | Normal ss \<Rightarrow> Normal (join '','' ss))"
| "to_string (JObj ps) =
     (if ''toString'' \<in> set (map fst ps)
      then Throw (JError ''TypeError'' ''Cannot convert object to primitive value'')
      else Normal ''[object Object]'')"
| "to_string (JError n m) = Normal (if n = [] then m else if m = [] then n else n @ '': '' @ m)"

text \<open>The loose comparison \<open>v == ''\<close>: a boolean and a number are compared as numbers
  with 0, an object through its conversion to a primitive, which may throw.\<close>

fun loose_eq_empty :: "jsval \<Rightarrow> bool completion" where
  "loose_eq_empty JUndefined = Normal False"
| "loose_eq_empty JNull = Normal False"
| "loose_eq_empty (JBool b) = Normal (\<not> b)"
| "loose_eq_empty (JNum t) = Normal (t = ''0'')"
| "loose_eq_empty (JStr s) = Normal (s = [])"
| "loose_eq_empty v = (case to_string v of Throw e \<Rightarrow> Throw e | Normal s \<Rightarrow> Normal (s = []))"

text \<open>Reading \<open>v.message\<close> throws a \<open>TypeError\<close> on \<open>undefined\<close> and \<open>null\<close>; the
  text of that error is the engine's (here V8's). Primitives and arrays have no such
  property.\<close>

fun get_message :: "jsval \<Rightarrow> jsval completion" where
  "get_message JUndefined =
     Throw (JError ''TypeError'' ''Cannot read properties of undefined (reading 'message')'')"
| "get_message JNull =
     Throw (JError ''TypeError'' ''Cannot read properties of null (reading 'message')'')"
| "get_message (JObj ps) = Normal (case map_of ps ''message'' of None \<Rightarrow> JUndefined | Some v \<Rightarrow> v)"
| "get_message (JError n m) = Normal (JStr m)"
| "get_message v = Normal JUndefined"

subsection \<open>\<open>JSON.stringify\<close>\<close>

definition json_quote_char :: "char \<Rightarrow> string" where
  "json_quote_char c =
     (let n = (of_char c :: nat) in
      if n = 34 then [CHR 0x5C, CHR 0x22]
      else if n = 92 then [CHR 0x5C, CHR 0x5C]
      else if n = 8 then [CHR 0x5C, CHR ''b'']
      else if n = 12 then [CHR 0x5C, CHR ''f'']
      else if n = 10 then [CHR 0x5C, CHR ''n'']
      else if n = 13 then [CHR 0x5C, CHR ''r'']
      else if n = 9 then [CHR 0x5C, CHR ''t'']
      else if n < 32 then [CHR 0x5C, CHR ''u'', CHR ''0'', CHR ''0'', hex_lower (n div 16), hex_lower (n mod 16)]
      else [c])"

definition json_quote :: "string \<Rightarrow> string" where
  "json_quote s = CHR 0x22 # concat (map json_quote_char s) @ [CHR 0x22]"

text \<open>\<open>None\<close> is the result \<open>undefined\<close>: a property with such a value is left out of
  an object, and an array element with such a value is written \<open>null\<close>. A number that
  is not finite is written \<open>null\<close>.\<close>

fun JSON_stringify :: "jsval \<Rightarrow> string option" where
  "JSON_stringify JUndefined = None"
| "JSON_stringify JNull = Some ''null''"
| "JSON_stringify (JBool b) = Some (if b then ''true'' else ''false'')"
| "JSON_stringify (JNum t) =
     Some (if t = ''NaN'' \<or> t = ''Infinity'' \<or> t = ''-Infinity'' then ''null'' else t)"
| "JSON_stringify (JStr s) = Some (json_quote s)"
| "JSON_stringify (JArr xs) =
     Some (''['' @ join '','' (map (\<lambda>x. case JSON_stringify x of None \<Rightarrow> ''null'' | Some t \<Rightarrow> t) xs) @ '']'')"
| "JSON_stringify (JObj ps) =
     Some (''{'' @ join '',''
        (concat (map (\<lambda>(k, v). case JSON_stringify v of None \<Rightarrow> [] | Some t \<Rightarrow> [json_quote k @ '':'' @ t]) ps))
        @ ''}'')"
| "JSON_stringify (JError n m) = Some ''{}''"


subsection \<open>Object literals with a spread\<close>

text \<open>
  An object is the list of its own properties in the order in which \<open>JSON.stringify\<close> and
  \<open>Object.entries\<close> visit them: array-index keys in ascending numeric order, then the
  other keys in creation order. Defining a property that exists replaces its value where
  it stands; a new one takes its place in that order.
\<close>

definition is_array_index :: "string \<Rightarrow> bool" where
  "is_array_index k =
     (k \<noteq> [] \<and> list_all is_digit k \<and> show_nat (read_nat k) = k \<and> read_nat k < 4294967295)"

fun insert_index :: "string \<Rightarrow> jsval \<Rightarrow> obj \<Rightarrow> obj" where
  "insert_index k v [] = [(k, v)]"
| "insert_index k v ((k', v') # ps) =
     (if is_array_index k' \<and> read_nat k' < read_nat k then (k', v') # insert_index k v ps
      else (k, v) # (k', v') # ps)"

definition replace_value :: "obj \<Rightarrow> string \<Rightarrow> jsval \<Rightarrow> obj" where
  "replace_value ps k v = map (\<lambda>(k', v'). if k' = k then (k', v) else (k', v')) ps"

definition define_property :: "obj \<Rightarrow> string \<Rightarrow> jsval \<Rightarrow> obj" where
  "define_property ps k v =
     (if k \<in> set (map fst ps) then replace_value ps k v
      else if is_array_index k then insert_index k v ps
      else ps @ [(k, v)])"

text \<open>\<open>{ ...target, ...source }\<close>: the properties of \<open>source\<close> are defined on the new
  object one after the other; spreading \<open>undefined\<close> adds nothing.\<close>

definition object_spread :: "obj \<Rightarrow> obj option \<Rightarrow> obj" where
  "object_spread target source =
     (case source of None \<Rightarrow> target
      | Some ps \<Rightarrow> foldl (\<lambda>t (k, v). define_property t k v) target ps)"

subsection \<open>\<open>URLSearchParams\<close>\<close>

text \<open>
  \<open>toString()\<close> is the \<open>application/x-www-form-urlencoded\<close> serializer: names and values
  are encoded in UTF-8; letters, digits and \<open>* - . _\<close> stand for themselves, a space
  becomes \<open>+\<close>, every other byte becomes \<open>%XX\<close>; the pairs are joined by \<open>&\<close>.
\<close>

definition percent_byte :: "nat \<Rightarrow> string" where
  "percent_byte n = [CHR ''%'', hex_upper (n div 16), hex_upper (n mod 16)]"

definition urlencoded_safe :: "char \<Rightarrow> bool" where
  "urlencoded_safe c =
     (let n = (of_char c :: nat) in
      (48 \<le> n \<and> n \<le> 57) \<or> (65 \<le> n \<and> n \<le> 90) \<or> (97 \<le> n \<and> n \<le> 122)
        \<or> n = 42 \<or> n = 45 \<or> n = 46 \<or> n = 95)"

definition urlencode_char :: "char \<Rightarrow> string" where
  "urlencode_char c =
     (let n = (of_char c :: nat) in
      if urlencoded_safe c then [c]
      else if n = 32 then ''+''
      else if n < 128 then percent_byte n
      else percent_byte (192 + n div 64) @ percent_byte (128 + n mod 64))"

definition urlencode :: "string \<Rightarrow> string" where
  "urlencode s = concat (map urlencode_char s)"

definition URLSearchParams_toString :: "(string \<times> string) list \<Rightarrow> string" where
  "URLSearchParams_toString params =
     join ''&'' (map (\<lambda>(name, val). urlencode name @ ''='' @ urlencode val) params)"

section \<open>The client\<close>

text \<open>The keys of the interface \<open>ScanPayload\<close>. The parameter \<open>options\<close> of \<open>scan\<close> has the
  type \<open>Omit<ScanPayload, 'url'>\<close>: an object with some of these keys other than \<open>url\<close>.\<close>

definition ScanPayload_keys :: "string list" where
  "ScanPayload_keys =
     [''url'', ''visibility'', ''tags'', ''customagent'', ''referer'', ''overrideSafety'', ''country'']"

definition Omit_url :: "obj \<Rightarrow> bool" where
  "Omit_url ps = (distinct (map fst ps) \<and> list_all (\<lambda>k. k \<in> set ScanPayload_keys \<and> k \<noteq> ''url'') (map fst ps))"

text \<open>The two private fields of \<open>UrlscanClient\<close>.\<close>

record UrlscanClient =
  apiKey :: jsval
  baseURL :: string

text \<open>What \<open>fetch(input, init)\<close> is called with, and the part of a \<open>Response\<close> the client
  reads: \<open>ok\<close>, \<open>status\<close> (an unsigned integer, written in decimal by the template
  literal) and the promise returned by \<open>json()\<close>. The transport is a parameter of every
  method: it is the global \<open>fetch\<close>, which the client calls once per request.\<close>

record request =
  req_url :: string
  req_method :: string
  req_headers :: obj
  req_body :: "string option"

record response =
  ok :: bool
  status :: nat
  json :: "jsval promise"

type_synonym fetch = "request \<Rightarrow> response promise"

text \<open>The state a call can change or be observed through: the client object, the calls
  made to the global \<open>fetch\<close>, and the calls made to \<open>console.error\<close> (each a list of
  arguments).\<close>

record world =
  client :: UrlscanClient
  fetch_calls :: "request list"
  console_error :: "jsval list list"

text \<open>The condition of the constructor is \<open>!apiKey || apiKey == ''\<close>: the comparison
  is made only for a truthy key, and what it throws leaves the constructor.\<close>

definition constructor :: "jsval \<Rightarrow> UrlscanClient completion" where
  "constructor key =
     (if \<not> truthy key then Throw (JError ''Error'' ''API key is required.'')
      else case loose_eq_empty key of
             Throw e \<Rightarrow> Throw e
           | Normal eq \<Rightarrow>
               if eq then Throw (JError ''Error'' ''API key is required.'')
               else Normal \<lparr>apiKey = key, baseURL = ''https://urlscan.io/api/v1/''\<rparr>)"

definition handleError :: "jsval \<Rightarrow> world \<Rightarrow> unit completion \<times> world" where
  "handleError error w =
     (case get_message error of
        Throw e \<Rightarrow> (Throw e, w)
      | Normal message \<Rightarrow>
          (Normal (),
           w\<lparr>console_error := console_error w @ [[JStr ''Error:'', if truthy message then message else error]]\<rparr>))"

text \<open>
  The three methods end in the same text:
  \<^verbatim>\<open>try { const response = await fetch(input, init);
        if (!response.ok) { throw new Error(`HTTP error! status: ${response.status}`); }
        return await response.json();
  } catch (error) { this.handleError(error); }\<close>
  \<open>catch_error\<close> is the \<open>catch\<close> clause: either \<open>handleError\<close> throws, which rejects the
  promise of the method, or the method runs off its end and its promise is fulfilled
  with \<open>undefined\<close>. \<open>await_json\<close> is what the \<open>try\<close> block does with the promise \<open>fetch\<close>
  returns, and \<open>try_fetch\<close> records the call.
\<close>

definition catch_error :: "jsval \<Rightarrow> world \<Rightarrow> jsval promise \<times> world" where
  "catch_error error w =
     (case handleError error w of
        (Throw e, w') \<Rightarrow> (Rejected e, w')
      | (Normal u, w') \<Rightarrow> (Fulfilled JUndefined, w'))"

definition await_json :: "response promise \<Rightarrow> jsval completion" where
  "await_json p =
     (case p of
        Rejected e \<Rightarrow> Throw e
      | Fulfilled response \<Rightarrow>
          if \<not> ok response then Throw (JError ''Error'' (''HTTP error! status: '' @ show_nat (status response)))
          else (case json response of Rejected e \<Rightarrow> Throw e | Fulfilled v \<Rightarrow> Normal v))"

definition try_fetch :: "fetch \<Rightarrow> request \<Rightarrow> world \<Rightarrow> jsval promise \<times> world" where
  "try_fetch fetch req w =
     (let w1 = w\<lparr>fetch_calls := fetch_calls w @ [req]\<rparr>
      in case await_json (fetch req) of
           Normal v \<Rightarrow> (Fulfilled v, w1)
         | Throw error \<Rightarrow> catch_error error w1)"

definition scan :: "fetch \<Rightarrow> string \<Rightarrow> obj option \<Rightarrow> world \<Rightarrow> jsval promise \<times> world" where
  "scan fetch url options w =
     (let payload = object_spread [(''url'', JStr url)] options
      in try_fetch fetch
           \<lparr>req_url = baseURL (client w) @ ''scan'',
            req_method = ''POST'',
            req_headers = [(''API-Key'', apiKey (client w)), (''Content-Type'', JStr ''application/json'')],
            req_body = JSON_stringify (JObj payload)\<rparr> w)"

definition getScan :: "fetch \<Rightarrow> string \<Rightarrow> world \<Rightarrow> jsval promise \<times> world" where
  "getScan fetch id' w =
     try_fetch fetch
       \<lparr>req_url = baseURL (client w) @ ''result/'' @ id',
        req_method = ''GET'',
        req_headers = [(''API-Key'', apiKey (client w))],
        req_body = None\<rparr> w"

text \<open>
  In \<open>search\<close> the check of the term stands before the \<open>try\<close>, so its error rejects the
  promise the method returns. \<open>append_entries\<close> is
  \<open>Object.entries(options).forEach(([key, value]) => { if (value !== undefined) queryParams.append(key, value) })\<close>:
  \<open>append\<close> converts the value to a string, and a conversion that throws ends the loop
  inside the \<open>try\<close>, before any request.
\<close>

fun append_entries :: "(string \<times> string) list \<Rightarrow> obj \<Rightarrow> (string \<times> string) list completion" where
  "append_entries queryParams [] = Normal queryParams"
| "append_entries queryParams ((key, val) # entries) =
     (if val \<noteq> JUndefined
      then (case to_string val of
              Throw e \<Rightarrow> Throw e
            | Normal s \<Rightarrow> append_entries (queryParams @ [(key, s)]) entries)
      else append_entries queryParams entries)"

definition search :: "fetch \<Rightarrow> string \<Rightarrow> obj option \<Rightarrow> world \<Rightarrow> jsval promise \<times> world" where
  "search fetch term options w =
     (if term = [] then (Rejected (JError ''Error'' ''Search term is required.''), w)
      else
        case (case options of
                None \<Rightarrow> Normal [(''q'', term)]
              | Some entries \<Rightarrow> append_entries [(''q'', term)] entries) of
          Throw error \<Rightarrow> catch_error error w
        | Normal queryParams \<Rightarrow>
            try_fetch fetch
              \<lparr>req_url = baseURL (client w) @ ''search?'' @ URLSearchParams_toString queryParams,
               req_method = ''GET'',
               req_headers = [(''API-Key'', apiKey (client w))],
               req_body = None\<rparr> w)"

text \<open>The values \<open>append\<close> can convert, and the text it appends for them. The values of
  the interface \<open>SearchOptions\<close> (\<open>size: number\<close>, \<open>search_after: string\<close>) are among them.\<close>

definition converts :: "jsval \<Rightarrow> bool" where
  "converts v = (case to_string v of Throw e \<Rightarrow> False | Normal s \<Rightarrow> True)"

definition converted :: "jsval \<Rightarrow> string" where
  "converted v = (case to_string v of Throw e \<Rightarrow> [] | Normal s \<Rightarrow> s)"

definition options_convert :: "obj option \<Rightarrow> bool" where
  "options_convert options =
     (case options of None \<Rightarrow> True | Some ps \<Rightarrow> list_all (\<lambda>(k, v). v = JUndefined \<or> converts v) ps)"

fun is_number :: "jsval \<Rightarrow> bool" where
  "is_number (JNum t) = True"
| "is_number v = False"

fun is_string :: "jsval \<Rightarrow> bool" where
  "is_string (JStr s) = True"
| "is_string v = False"

definition SearchOptions :: "obj \<Rightarrow> bool" where
  "SearchOptions ps =
     (distinct (map fst ps) \<and>
      list_all (\<lambda>(k, v). (k = ''size'' \<and> (v = JUndefined \<or> is_number v))
                       \<or> (k = ''search_after'' \<and> (v = JUndefined \<or> is_string v))) ps)"

section \<open>Example values\<close>

text \<open>The client and the mocked transports of the repository's test suite:
  \<open>new UrlscanClient('test-api-key')\<close>, a \<open>fetch\<close> that resolves to
  \<open>{ ok: false, status: n }\<close>, one that resolves to an \<open>ok\<close> response whose \<open>json()\<close>
  gives a value, one that rejects, and one whose \<open>ok\<close> response has a \<open>json()\<close> that
  rejects.\<close>

definition example_client :: UrlscanClient where
  "example_client = \<lparr>apiKey = JStr ''test-api-key'', baseURL = ''https://urlscan.io/api/v1/''\<rparr>"

definition example_world :: world where
  "example_world = \<lparr>client = example_client, fetch_calls = [], console_error = []\<rparr>"

definition fetch_status :: "nat \<Rightarrow> fetch" where
  "fetch_status n req =
     Fulfilled \<lparr>ok = False, status = n, json = Rejected (JError ''TypeError'' ''response.json is not a function'')\<rparr>"

definition fetch_body :: "jsval \<Rightarrow> fetch" where
  "fetch_body v req = Fulfilled \<lparr>ok = True, status = 200, json = Fulfilled v\<rparr>"

definition fetch_rejects :: "jsval \<Rightarrow> fetch" where
  "fetch_rejects e req = Rejected e"

definition fetch_json_rejects :: "jsval \<Rightarrow> fetch" where
  "fetch_json_rejects e req = Fulfilled \<lparr>ok = True, status = 200, json = Rejected e\<rparr>"

section \<open>Properties of objects\<close>

text \<open>Defining a property adds its key to the keys of the object, keeps the keys
  distinct, and makes the property read as the value defined.\<close>

lemma keys_replace_value: "map fst (replace_value t k v) = map fst t"
  by (induction t) (auto simp: replace_value_def)

lemma keys_insert_index: "fst ` set (insert_index k v t) = insert k (fst ` set t)"
  by (induction k v t rule: insert_index.induct) auto


lemma distinct_insert_index:
  "k \<notin> fst ` set t \<Longrightarrow> distinct (map fst t) \<Longrightarrow> distinct (map fst (insert_index k v t))"
  by (induction k v t rule: insert_index.induct) (auto simp: keys_insert_index)

lemma distinct_define_property:
  "distinct (map fst t) \<Longrightarrow> distinct (map fst (define_property t k v))"
  by (simp add: define_property_def keys_replace_value distinct_insert_index)







lemma distinct_spread:
  "distinct (map fst t) \<Longrightarrow> distinct (map fst (foldl (\<lambda>t (k, v). define_property t k v) t ps))"
  by (induction ps arbitrary: t) (auto simp: distinct_define_property)

lemma spread_fresh:
  "distinct (map fst ps) \<Longrightarrow> fst ` set ps \<inter> fst ` set t = {} \<Longrightarrow>
   list_all (\<lambda>k. \<not> is_array_index k) (map fst ps) \<Longrightarrow>
   foldl (\<lambda>t (k, v). define_property t k v) t ps = t @ ps"
proof (induction ps arbitrary: t)
  case Nil
  then show ?case by simp
next
  case (Cons p ps)
  obtain k v where p: "p = (k, v)" by (cases p)
  from Cons.prems have k: "k \<notin> fst ` set t" "\<not> is_array_index k" by (auto simp: p)
  then have step: "define_property t k v = t @ [(k, v)]" by (simp add: define_property_def)
  have "foldl (\<lambda>t (k, v). define_property t k v) (t @ [(k, v)]) ps = (t @ [(k, v)]) @ ps"
    using Cons.prems by (intro Cons.IH) (auto simp: p)
  then show ?case by (simp add: p step)
qed












section \<open>The request and its outcome\<close>

lemma constructor_Normal:
  "constructor key = Normal c \<Longrightarrow> apiKey c = key \<and> baseURL c = ''https://urlscan.io/api/v1/''"
  by (auto simp: constructor_def split: if_splits completion.splits)

lemma catch_error_calls: "fetch_calls (snd (catch_error error w)) = fetch_calls w"
  by (simp add: catch_error_def handleError_def split: completion.splits)

lemma catch_error_client: "client (snd (catch_error error w)) = client w"
  by (simp add: catch_error_def handleError_def split: completion.splits)

lemma try_fetch_calls: "fetch_calls (snd (try_fetch fetch req w)) = fetch_calls w @ [req]"
  by (simp add: try_fetch_def Let_def catch_error_calls split: completion.splits)

lemma try_fetch_client: "client (snd (try_fetch fetch req w)) = client w"
  by (simp add: try_fetch_def Let_def catch_error_client split: completion.splits)

lemma try_fetch_not_ok:
  "fetch req = Fulfilled r \<Longrightarrow> \<not> ok r \<Longrightarrow>
   try_fetch fetch req w =
     (Fulfilled JUndefined,
      w\<lparr>fetch_calls := fetch_calls w @ [req],
        console_error := console_error w @
          [[JStr ''Error:'', JStr (''HTTP error! status: '' @ show_nat (status r))]]\<rparr>)"
  by (simp add: try_fetch_def Let_def await_json_def catch_error_def handleError_def)

lemma try_fetch_ok:
  "fetch req = Fulfilled r \<Longrightarrow> ok r \<Longrightarrow> json r = Fulfilled v \<Longrightarrow>
   try_fetch fetch req w = (Fulfilled v, w\<lparr>fetch_calls := fetch_calls w @ [req]\<rparr>)"
  by (simp add: try_fetch_def Let_def await_json_def)

text \<open>The loop of \<open>search\<close> over \<open>options\<close>: when every value that is not \<open>undefined\<close>
  converts, it appends the converted values in order; otherwise it throws the
  \<open>TypeError\<close> of the conversion.\<close>

lemma sequence_Throw:
  "sequence cs = Throw e \<Longrightarrow> Throw e \<in> set cs"
  by (induction cs rule: sequence.induct) (auto split: completion.splits)

lemma to_string_Throw:
  "to_string v = Throw e \<Longrightarrow> e = JError ''TypeError'' ''Cannot convert object to primitive value''"
proof (induction v rule: to_string.induct)
  case (6 xs)
  from "6.prems" have "sequence (map (\<lambda>x. if x = JUndefined \<or> x = JNull then Normal [] else to_string x) xs) = Throw e"
    by (simp split: completion.splits)
  then obtain x where "x \<in> set xs" and "x \<noteq> JUndefined \<and> x \<noteq> JNull" and "to_string x = Throw e"
    by (auto dest!: sequence_Throw split: if_splits)
  then show ?case using "6.IH" by blast
qed (auto split: if_splits)

lemma append_entries_converts:
  "list_all (\<lambda>(k, v). v = JUndefined \<or> converts v) ps \<Longrightarrow>
   append_entries acc ps
     = Normal (acc @ map (\<lambda>(k, v). (k, converted v)) (filter (\<lambda>(k, v). v \<noteq> JUndefined) ps))"
  by (induction acc ps rule: append_entries.induct)
    (auto simp: converts_def converted_def split: completion.splits)

lemma append_entries_throws:
  "\<not> list_all (\<lambda>(k, v). v = JUndefined \<or> converts v) ps \<Longrightarrow>
   append_entries acc ps = Throw (JError ''TypeError'' ''Cannot convert object to primitive value'')"
  by (induction acc ps rule: append_entries.induct)
    (auto simp: converts_def split: completion.splits dest: to_string_Throw)

lemma is_number_converts: "is_number v \<Longrightarrow> converts v"
  by (cases v) (simp_all add: converts_def)

lemma is_string_converts: "is_string v \<Longrightarrow> converts v"
  by (cases v) (simp_all add: converts_def)

lemma SearchOptions_convert:
  assumes "SearchOptions ps"
  shows "options_convert (Some ps)"
proof -
  have "v = JUndefined \<or> converts v" if "(k, v) \<in> set ps" for k v
  proof -
    have "(k = ''size'' \<and> (v = JUndefined \<or> is_number v))
        \<or> (k = ''search_after'' \<and> (v = JUndefined \<or> is_string v))"
      using assms that by (auto simp: SearchOptions_def list_all_iff)
    then show ?thesis
      using is_number_converts is_string_converts by blast
  qed
  then show ?thesis
    by (auto simp: options_convert_def list_all_iff)
qed

lemma search_converts:
  "term \<noteq> [] \<Longrightarrow> options_convert options \<Longrightarrow>
   search fetch term options w =
     try_fetch fetch
       \<lparr>req_url = baseURL (client w) @ ''search?'' @ URLSearchParams_toString
          ((''q'', term) # map (\<lambda>(k, v). (k, converted v))
             (filter (\<lambda>(k, v). v \<noteq> JUndefined) (case options of None \<Rightarrow> [] | Some ps \<Rightarrow> ps))),
        req_method = ''GET'', req_headers = [(''API-Key'', apiKey (client w))], req_body = None\<rparr> w"
  by (cases options) (simp_all add: search_def options_convert_def append_entries_converts)

lemma search_throws:
  "term \<noteq> [] \<Longrightarrow> \<not> options_convert options \<Longrightarrow>
   search fetch term options w =
     (Fulfilled JUndefined,
      w\<lparr>console_error := console_error w @
          [[JStr ''Error:'', JStr ''Cannot convert object to primitive value'']]\<rparr>)"
  by (cases options)
    (simp_all add: search_def options_convert_def append_entries_throws catch_error_def handleError_def)

lemma run_is_try_fetch:
  assumes "run = scan fetch url options \<or> run = getScan fetch id'
    \<or> (term \<noteq> [] \<and> options_convert options' \<and> run = search fetch term options')"
  shows "\<exists>req. run w = try_fetch fetch req w"
  using assms by (auto simp: scan_def getScan_def search_converts Let_def simp del: JSON_stringify.simps)

lemma run_ok:
  assumes "run = scan fetch url options \<or> run = getScan fetch id'
    \<or> (term \<noteq> [] \<and> options_convert options' \<and> run = search fetch term options')"
    and "fetch (last (fetch_calls (snd (run w)))) = Fulfilled r" and "ok r" and "json r = Fulfilled v"
  shows "fst (run w) = Fulfilled v \<and> console_error (snd (run w)) = console_error w"
proof -
  obtain req where run: "run w = try_fetch fetch req w"
    using run_is_try_fetch [OF assms(1)] by blast
  have "fetch req = Fulfilled r"
    using assms(2) by (simp add: run try_fetch_calls)
  then show ?thesis
    using assms(3,4) by (simp add: run try_fetch_ok)
qed

lemma scan_calls:
  "fetch_calls (snd (scan fetch url options w)) = fetch_calls w @
     [\<lparr>req_url = baseURL (client w) @ ''scan'', req_method = ''POST'',
       req_headers = [(''API-Key'', apiKey (client w)), (''Content-Type'', JStr ''application/json'')],
       req_body = JSON_stringify (JObj (object_spread [(''url'', JStr url)] options))\<rparr>]"
  by (simp add: scan_def Let_def try_fetch_calls del: JSON_stringify.simps)

lemma getScan_calls:
  "fetch_calls (snd (getScan fetch id' w)) = fetch_calls w @
     [\<lparr>req_url = baseURL (client w) @ ''result/'' @ id', req_method = ''GET'',
       req_headers = [(''API-Key'', apiKey (client w))], req_body = None\<rparr>]"
  by (simp add: getScan_def try_fetch_calls)

lemma search_calls:
  "term \<noteq> [] \<Longrightarrow> options_convert options \<Longrightarrow>
   fetch_calls (snd (search fetch term options w)) = fetch_calls w @
     [\<lparr>req_url = baseURL (client w) @ ''search?'' @ URLSearchParams_toString
         ((''q'', term) # map (\<lambda>(k, v). (k, converted v))
            (filter (\<lambda>(k, v). v \<noteq> JUndefined) (case options of None \<Rightarrow> [] | Some ps \<Rightarrow> ps))),
       req_method = ''GET'', req_headers = [(''API-Key'', apiKey (client w))], req_body = None\<rparr>]"
  by (simp add: search_converts try_fetch_calls)

lemma ScanPayload_key_not_index: "k \<in> set ScanPayload_keys \<Longrightarrow> \<not> is_array_index k"
  by (auto simp: ScanPayload_keys_def is_array_index_def is_digit_def)

lemma spread_Omit_url:
  assumes "Omit_url ps"
  shows "object_spread [(''url'', x)] (Some ps) = (''url'', x) # ps"
proof -
  have "distinct (map fst ps)" and "fst ` set ps \<inter> fst ` set [(''url'', x)] = {}"
    and "list_all (\<lambda>k. \<not> is_array_index k) (map fst ps)"
    using assms ScanPayload_key_not_index by (auto simp: Omit_url_def list_all_iff)
  then show ?thesis
    using spread_fresh [of ps "[(''url'', x)]"] by (simp add: object_spread_def)
qed

lemma join_Cons: "join sep (x # xs) = x @ concat (map (\<lambda>y. sep @ y) xs)"
  by (induction xs arbitrary: x) auto

lemma urlencode_safe: "list_all urlencoded_safe s \<Longrightarrow> urlencode s = s"
  by (induction s) (auto simp: urlencode_def urlencode_char_def Let_def)

lemma URLSearchParams_toString_q:
  "URLSearchParams_toString ((''q'', term) # params)
     = ''q='' @ urlencode term @ concat (map (\<lambda>(name, val). ''&'' @ urlencode name @ ''='' @ urlencode val) params)"
proof -
  have "urlencode ''q'' = ''q''"
    by (simp add: urlencode_def urlencode_char_def urlencoded_safe_def)
  then show ?thesis
    by (simp add: URLSearchParams_toString_def join_Cons comp_def case_prod_unfold)
qed

lemma urlencode_example_query: "urlencode ''example query'' = ''example+query''"
  by (simp add: urlencode_def urlencode_char_def urlencoded_safe_def)

lemma length_urlencode: "length s \<le> length (urlencode s)"
proof (induction s)
  case Nil
  then show ?case by (simp add: urlencode_def)
next
  case (Cons c s)
  have "1 \<le> length (urlencode_char c)"
    by (simp add: urlencode_char_def percent_byte_def Let_def)
  then show ?case using Cons by (simp add: urlencode_def)
qed

lemma urlencode_fixed: "urlencode s = s \<Longrightarrow> list_all urlencoded_safe s"
proof (induction s)
  case Nil
  then show ?case by simp
next
  case (Cons c s)
  have eq: "urlencode_char c @ urlencode s = c # s"
    using Cons.prems by (simp add: urlencode_def)
  show ?case
  proof (cases "urlencoded_safe c")
    case True
    then have "urlencode s = s" using eq by (simp add: urlencode_char_def)
    then show ?thesis using True Cons.IH by simp
  next
    case False
    show ?thesis
    proof (cases "(of_char c :: nat) = 32")
      case True
      then have "urlencode_char c = ''+''" using False by (simp add: urlencode_char_def)
      then have "c = CHR ''+''" using eq by simp
      then show ?thesis using True by simp
    next
      case False32: False
      then have "3 \<le> length (urlencode_char c)"
        using False by (simp add: urlencode_char_def percent_byte_def Let_def)
      then have "3 + length s \<le> length (urlencode_char c @ urlencode s)"
        using length_urlencode [of s] by simp
      then show ?thesis using eq by simp
    qed
  qed
qed




lemma show_nat_404: "show_nat 404 = ''404''"
  by (simp add: show_nat.simps digit_char_def)

lemma show_nat_500: "show_nat 500 = ''500''"
  by (simp add: show_nat.simps digit_char_def)

section \<open>Construction\<close>

text \<open>
  Claim C2. Constructing the client with an absent (\<open>undefined\<close>) or empty API key throws
  an error whose message is exactly \<open>API key is required.\<close>; with any non-empty string
  the construction succeeds, and the client holds that key and the base URL
  \<open>https://urlscan.io/api/v1/\<close>.
\<close>

theorem constructor_requires_api_key:
  "constructor JUndefined = Throw (JError ''Error'' ''API key is required.'')
   \<and> constructor (JStr []) = Throw (JError ''Error'' ''API key is required.'')
   \<and> (k \<noteq> [] \<longrightarrow>
        constructor (JStr k) = Normal \<lparr>apiKey = JStr k, baseURL = ''https://urlscan.io/api/v1/''\<rparr>)"
  by (simp add: constructor_def)

theorem constructor_requires_api_key_witness:
  "''test-api-key'' \<noteq> [] \<and> constructor (JStr ''test-api-key'') = Normal example_client
   \<and> constructor (JStr []) = Throw (JError ''Error'' ''API key is required.'')"
  using constructor_requires_api_key [of "''test-api-key''"] by (simp add: example_client_def)

section \<open>The empty search term\<close>

text \<open>
  Claim C3. \<open>search\<close> with the empty term fails with exactly the message
  \<open>Search term is required.\<close>: the promise it returns is rejected with that error, which
  reaches the caller (the other failures end in a promise fulfilled with \<open>undefined\<close>),
  and the state is the one before the call, so no request was issued and nothing was
  logged. This holds for every transport and every \<open>options\<close>.
\<close>

theorem search_empty_term_rejects:
  "search fetch [] options w = (Rejected (JError ''Error'' ''Search term is required.''), w)"
  by (simp add: search_def)

theorem search_empty_term_rejects_witness:
  "search (fetch_body JNull) [] None example_world
     = (Rejected (JError ''Error'' ''Search term is required.''), example_world)
   \<and> fetch_calls (snd (search (fetch_body JNull) [] None example_world)) = []"
  using search_empty_term_rejects [of "fetch_body JNull" None example_world]
  by (simp add: example_world_def)

section \<open>The error handler\<close>

text \<open>
  Claim C10. Whenever \<open>error.message\<close> is falsy (not only when it is absent),
  \<open>handleError\<close> logs the tag \<open>Error:\<close> followed by the error value itself; so for an
  error whose message is the empty string the second argument of \<open>console.error\<close> is
  the error object, not the empty message.
\<close>

theorem handleError_falsy_message:
  "get_message error = Normal message \<Longrightarrow> \<not> truthy message \<Longrightarrow>
     handleError error w = (Normal (), w\<lparr>console_error := console_error w @ [[JStr ''Error:'', error]]\<rparr>)"
  by (simp add: handleError_def)

theorem handleError_falsy_message_witness:
  "get_message (JError ''Error'' []) = Normal (JStr []) \<and> \<not> truthy (JStr [])
   \<and> console_error (snd (handleError (JError ''Error'' []) example_world)) = [[JStr ''Error:'', JError ''Error'' []]]"
  using handleError_falsy_message [of "JError ''Error'' []" "JStr []" example_world]
  by (simp add: example_world_def)

section \<open>A response that is not ok\<close>

text \<open>
  Claim C5. When the response to the request of \<open>scan\<close>, \<open>getScan\<close> or \<open>search\<close> (with a
  non-empty term and options whose values \<open>append\<close> converts, as all values of the
  declared type are, so that \<open>search\<close> reaches its request) is not \<open>ok\<close> and has
  status \<open>S\<close>, the method calls \<open>console.error\<close>
  once, with the two arguments \<open>Error:\<close> and \<open>HTTP error! status: S\<close>; its promise is
  fulfilled with \<open>undefined\<close>, it has issued one request, and the client is unchanged, so
  the log entry is the only sign of the failure.
\<close>

theorem http_error_logged:
  assumes "run = scan fetch url options \<or> run = getScan fetch id'
      \<or> (term \<noteq> [] \<and> options_convert options' \<and> run = search fetch term options')"
    and "fetch (last (fetch_calls (snd (run w)))) = Fulfilled r" and "\<not> ok r"
  shows "fst (run w) = Fulfilled JUndefined
    \<and> console_error (snd (run w)) =
           console_error w @ [[JStr ''Error:'', JStr (''HTTP error! status: '' @ show_nat (status r))]]
    \<and> length (fetch_calls (snd (run w))) = Suc (length (fetch_calls w))
    \<and> client (snd (run w)) = client w"
proof -
  obtain req where run: "run w = try_fetch fetch req w"
    using run_is_try_fetch [OF assms(1)] by blast
  have "fetch req = Fulfilled r"
    using assms(2) by (simp add: run try_fetch_calls)
  then show ?thesis
    using assms(3) by (simp add: run try_fetch_not_ok)
qed

theorem http_error_logged_witness:
  "fst (scan (fetch_status 500) ''https://example.com'' None example_world) = Fulfilled JUndefined
   \<and> console_error (snd (scan (fetch_status 500) ''https://example.com'' None example_world))
        = [[JStr ''Error:'', JStr ''HTTP error! status: 500'']]"
  using http_error_logged [of "scan (fetch_status 500) ''https://example.com'' None" "fetch_status 500"
      "''https://example.com''" None "[]" "[]" None example_world
      "\<lparr>ok = False, status = 500, json = Rejected (JError ''TypeError'' ''response.json is not a function'')\<rparr>"]
  by (simp add: fetch_status_def example_world_def show_nat_500)

section \<open>Submitting a scan\<close>

text \<open>
  Claim C4. For every \<open>url\<close> and every \<open>options\<close> (given or not), \<open>scan\<close> on a constructed
  client issues exactly one request: a \<open>POST\<close> to \<open>https://urlscan.io/api/v1/scan\<close> with the
  headers \<open>API-Key\<close> (the key of the client) and \<open>Content-Type: application/json\<close>, whose
  body is \<open>JSON.stringify\<close> of the object \<open>{ url, ...options }\<close>. Without \<open>options\<close> that
  object has the property \<open>url\<close> alone; with \<open>options\<close> of the declared type it has \<open>url\<close>
  followed by the properties of \<open>options\<close>. When the response to the request is \<open>ok\<close> and
  its \<open>json()\<close> gives a value, the promise of \<open>scan\<close> is fulfilled with that value, and
  nothing is logged.
\<close>

theorem scan_request_and_result:
  assumes "constructor key = Normal (client w)"
  shows "fetch_calls (snd (scan fetch url options w)) = fetch_calls w @
       [\<lparr>req_url = ''https://urlscan.io/api/v1/scan'', req_method = ''POST'',
         req_headers = [(''API-Key'', key), (''Content-Type'', JStr ''application/json'')],
         req_body = JSON_stringify (JObj (object_spread [(''url'', JStr url)] options))\<rparr>]
     \<and> object_spread [(''url'', JStr url)] None = [(''url'', JStr url)]
     \<and> (Omit_url ps \<longrightarrow> object_spread [(''url'', JStr url)] (Some ps) = (''url'', JStr url) # ps)
     \<and> (fetch (last (fetch_calls (snd (scan fetch url options w)))) = Fulfilled r \<and> ok r \<and> json r = Fulfilled v
          \<longrightarrow> fst (scan fetch url options w) = Fulfilled v
              \<and> console_error (snd (scan fetch url options w)) = console_error w)"
proof -
  have "fetch_calls (snd (scan fetch url options w)) = fetch_calls w @
       [\<lparr>req_url = ''https://urlscan.io/api/v1/scan'', req_method = ''POST'',
         req_headers = [(''API-Key'', key), (''Content-Type'', JStr ''application/json'')],
         req_body = JSON_stringify (JObj (object_spread [(''url'', JStr url)] options))\<rparr>]"
    using constructor_Normal [OF assms(1)] by (simp add: scan_calls del: JSON_stringify.simps)
  moreover have "object_spread [(''url'', JStr url)] None = [(''url'', JStr url)]"
    by (simp add: object_spread_def)
  moreover have "Omit_url ps \<longrightarrow> object_spread [(''url'', JStr url)] (Some ps) = (''url'', JStr url) # ps"
    by (simp add: spread_Omit_url)
  moreover have "fetch (last (fetch_calls (snd (scan fetch url options w)))) = Fulfilled r \<and> ok r \<and> json r = Fulfilled v
          \<longrightarrow> fst (scan fetch url options w) = Fulfilled v
              \<and> console_error (snd (scan fetch url options w)) = console_error w"
    using run_ok [of "scan fetch url options" fetch url options _ _ _ w r v] by blast
  ultimately show ?thesis by blast
qed

theorem scan_request_and_result_witness:
  "constructor (JStr ''test-api-key'') = Normal (client example_world)
   \<and> Omit_url [(''visibility'', JStr ''public'')]
   \<and> fetch_calls (snd (scan (fetch_body (JObj [(''success'', JBool True)])) ''https://example.com''
        (Some [(''visibility'', JStr ''public'')]) example_world))
     = [\<lparr>req_url = ''https://urlscan.io/api/v1/scan'', req_method = ''POST'',
         req_headers = [(''API-Key'', JStr ''test-api-key''), (''Content-Type'', JStr ''application/json'')],
         req_body = Some ([CHR ''{'', CHR 0x22] @ ''url'' @ [CHR 0x22, CHR '':'', CHR 0x22]
           @ ''https://example.com'' @ [CHR 0x22, CHR '','', CHR 0x22] @ ''visibility''
           @ [CHR 0x22, CHR '':'', CHR 0x22] @ ''public'' @ [CHR 0x22, CHR ''}''])\<rparr>]
   \<and> fst (scan (fetch_body (JObj [(''success'', JBool True)])) ''https://example.com''
        (Some [(''visibility'', JStr ''public'')]) example_world) = Fulfilled (JObj [(''success'', JBool True)])"
  using scan_request_and_result [of "JStr ''test-api-key''" example_world
      "fetch_body (JObj [(''success'', JBool True)])" "''https://example.com''"
      "Some [(''visibility'', JStr ''public'')]" "[(''visibility'', JStr ''public'')]"
      "\<lparr>ok = True, status = 200, json = Fulfilled (JObj [(''success'', JBool True)])\<rparr>"
      "JObj [(''success'', JBool True)]"]
  by (simp add: example_world_def example_client_def constructor_def Omit_url_def ScanPayload_keys_def
      fetch_body_def json_quote_def json_quote_char_def)




section \<open>Fetching a result\<close>

text \<open>
  For every \<open>id\<close>, \<open>getScan\<close> on a constructed client issues exactly one request: a \<open>GET\<close>
  to \<open>https://urlscan.io/api/v1/result/\<close> followed by the \<open>id\<close> as it is, with the header
  \<open>API-Key\<close> (the key of the client) and no body. When the response is \<open>ok\<close> and its
  \<open>json()\<close> gives a value, the promise is fulfilled with that value; when the response is
  not \<open>ok\<close>, the promise is fulfilled with \<open>undefined\<close> after the status has been logged.
\<close>

lemma getScan_request_and_result:
  assumes "constructor key = Normal (client w)"
  shows "fetch_calls (snd (getScan fetch id' w)) = fetch_calls w @
       [\<lparr>req_url = ''https://urlscan.io/api/v1/result/'' @ id', req_method = ''GET'',
         req_headers = [(''API-Key'', key)], req_body = None\<rparr>]
     \<and> (fetch (last (fetch_calls (snd (getScan fetch id' w)))) = Fulfilled r \<and> ok r \<and> json r = Fulfilled v
          \<longrightarrow> fst (getScan fetch id' w) = Fulfilled v
              \<and> console_error (snd (getScan fetch id' w)) = console_error w)
     \<and> (fetch (last (fetch_calls (snd (getScan fetch id' w)))) = Fulfilled r \<and> \<not> ok r
          \<longrightarrow> fst (getScan fetch id' w) = Fulfilled JUndefined
              \<and> console_error (snd (getScan fetch id' w)) = console_error w @
                   [[JStr ''Error:'', JStr (''HTTP error! status: '' @ show_nat (status r))]])"
proof -
  have "fetch_calls (snd (getScan fetch id' w)) = fetch_calls w @
       [\<lparr>req_url = ''https://urlscan.io/api/v1/result/'' @ id', req_method = ''GET'',
         req_headers = [(''API-Key'', key)], req_body = None\<rparr>]"
    using constructor_Normal [OF assms(1)] by (simp add: getScan_calls)
  moreover have "fetch (last (fetch_calls (snd (getScan fetch id' w)))) = Fulfilled r \<and> ok r \<and> json r = Fulfilled v
          \<longrightarrow> fst (getScan fetch id' w) = Fulfilled v
              \<and> console_error (snd (getScan fetch id' w)) = console_error w"
    using run_ok [of "getScan fetch id'" fetch _ _ id' _ _ w r v] by blast
  moreover have "fetch (last (fetch_calls (snd (getScan fetch id' w)))) = Fulfilled r \<and> \<not> ok r
          \<longrightarrow> fst (getScan fetch id' w) = Fulfilled JUndefined
              \<and> console_error (snd (getScan fetch id' w)) = console_error w @
                   [[JStr ''Error:'', JStr (''HTTP error! status: '' @ show_nat (status r))]]"
  proof (intro impI, elim conjE)
    assume r: "fetch (last (fetch_calls (snd (getScan fetch id' w)))) = Fulfilled r" "\<not> ok r"
    then have "fetch \<lparr>req_url = baseURL (client w) @ ''result/'' @ id', req_method = ''GET'',
       req_headers = [(''API-Key'', apiKey (client w))], req_body = None\<rparr> = Fulfilled r"
      by (simp add: getScan_calls)
    then show "fst (getScan fetch id' w) = Fulfilled JUndefined
              \<and> console_error (snd (getScan fetch id' w)) = console_error w @
                   [[JStr ''Error:'', JStr (''HTTP error! status: '' @ show_nat (status r))]]"
      using r(2) by (simp add: getScan_def try_fetch_not_ok)
  qed
  ultimately show ?thesis by blast
qed

lemma getScan_request_and_result_example:
  "constructor (JStr ''test-api-key'') = Normal (client example_world)
   \<and> fetch_calls (snd (getScan (fetch_status 404) ''scan-id'' example_world))
     = [\<lparr>req_url = ''https://urlscan.io/api/v1/result/scan-id'', req_method = ''GET'',
         req_headers = [(''API-Key'', JStr ''test-api-key'')], req_body = None\<rparr>]
   \<and> fst (getScan (fetch_status 404) ''scan-id'' example_world) = Fulfilled JUndefined
   \<and> console_error (snd (getScan (fetch_status 404) ''scan-id'' example_world))
     = [[JStr ''Error:'', JStr ''HTTP error! status: 404'']]"
  using getScan_request_and_result [of "JStr ''test-api-key''" example_world "fetch_status 404" "''scan-id''"
      "\<lparr>ok = False, status = 404, json = Rejected (JError ''TypeError'' ''response.json is not a function'')\<rparr>"]
  by (simp add: example_world_def example_client_def constructor_def fetch_status_def show_nat_404)

text \<open>
  Claim C6 says that \<open>getScan\<close> ends with no value after logging whenever the response is
  not an \<open>ok\<close> one with a parsed body, which includes a rejected \<open>fetch\<close> and a failed
  \<open>json()\<close>. When \<open>fetch\<close> rejects with \<open>null\<close>, or the \<open>json()\<close> of an \<open>ok\<close> response rejects
  with \<open>undefined\<close>, \<open>handleError\<close> throws a \<open>TypeError\<close> on reading \<open>error.message\<close>: the
  request has been issued as the claim says, but the promise of \<open>getScan\<close> is rejected and
  nothing is logged.
\<close>

theorem getScan_failure_with_null_escapes:
  "getScan (fetch_rejects JNull) ''scan-id'' example_world
     = (Rejected (JError ''TypeError'' ''Cannot read properties of null (reading 'message')''),
        example_world\<lparr>fetch_calls :=
          [\<lparr>req_url = ''https://urlscan.io/api/v1/result/scan-id'', req_method = ''GET'',
            req_headers = [(''API-Key'', JStr ''test-api-key'')], req_body = None\<rparr>]\<rparr>)
   \<and> getScan (fetch_json_rejects JUndefined) ''scan-id'' example_world
     = (Rejected (JError ''TypeError'' ''Cannot read properties of undefined (reading 'message')''),
        example_world\<lparr>fetch_calls :=
          [\<lparr>req_url = ''https://urlscan.io/api/v1/result/scan-id'', req_method = ''GET'',
            req_headers = [(''API-Key'', JStr ''test-api-key'')], req_body = None\<rparr>]\<rparr>)"
  by (simp add: getScan_def try_fetch_def await_json_def catch_error_def handleError_def
      fetch_rejects_def fetch_json_rejects_def example_world_def example_client_def)

section \<open>Searching\<close>

text \<open>
  Claim C7, amended. For every non-empty \<open>term\<close> and every \<open>options\<close> (given or not) whose
  values, where not \<open>undefined\<close>, can be converted to a string (every value of the declared
  type \<open>SearchOptions\<close> can: a string is itself, a number is the text JavaScript prints
  for it), \<open>search\<close> on a constructed client issues exactly one request: a \<open>GET\<close> with the
  header \<open>API-Key\<close> (the key of the client) and no body, to the base URL followed by
  \<open>search?\<close> and the query. The query is the \<open>application/x-www-form-urlencoded\<close> form of
  the parameters: \<open>q=\<close> and the encoded term, then, for each property of \<open>options\<close> whose
  value is not \<open>undefined\<close>, in the order of the properties, \<open>&\<close>, the encoded key, \<open>=\<close>
  and the encoded string form of the value; properties whose value is \<open>undefined\<close> are
  left out. The encoded term is the term itself exactly when the term has only letters,
  digits and \<open>* - . _\<close>. When a value cannot be converted, \<open>search\<close> issues no request: it
  logs the \<open>TypeError\<close> of the conversion and its promise is fulfilled with \<open>undefined\<close>.
\<close>

theorem search_request_urlencoded:
  assumes "term \<noteq> []" and "constructor key = Normal (client w)"
  shows "(options_convert options \<longrightarrow>
        fetch_calls (snd (search fetch term options w)) = fetch_calls w @
          [\<lparr>req_url = ''https://urlscan.io/api/v1/search?q='' @ urlencode term @
              concat (map (\<lambda>(k, v). ''&'' @ urlencode k @ ''='' @ urlencode (converted v))
                (filter (\<lambda>(k, v). v \<noteq> JUndefined) (case options of None \<Rightarrow> [] | Some ps \<Rightarrow> ps))),
            req_method = ''GET'', req_headers = [(''API-Key'', key)], req_body = None\<rparr>])
     \<and> (\<not> options_convert options \<longrightarrow>
        search fetch term options w =
          (Fulfilled JUndefined,
           w\<lparr>console_error := console_error w @
               [[JStr ''Error:'', JStr ''Cannot convert object to primitive value'']]\<rparr>))
     \<and> (SearchOptions ps \<longrightarrow> options_convert (Some ps))
     \<and> converted (JStr s) = s \<and> converted (JNum t) = t
     \<and> (urlencode term = term \<longleftrightarrow> list_all urlencoded_safe term)"
proof -
  have "options_convert options \<longrightarrow>
        fetch_calls (snd (search fetch term options w)) = fetch_calls w @
          [\<lparr>req_url = ''https://urlscan.io/api/v1/search?q='' @ urlencode term @
              concat (map (\<lambda>(k, v). ''&'' @ urlencode k @ ''='' @ urlencode (converted v))
                (filter (\<lambda>(k, v). v \<noteq> JUndefined) (case options of None \<Rightarrow> [] | Some ps \<Rightarrow> ps))),
            req_method = ''GET'', req_headers = [(''API-Key'', key)], req_body = None\<rparr>]"
    using assms(1) constructor_Normal [OF assms(2)]
    by (simp add: search_calls URLSearchParams_toString_q comp_def case_prod_unfold)
  moreover have "\<not> options_convert options \<longrightarrow>
        search fetch term options w =
          (Fulfilled JUndefined,
           w\<lparr>console_error := console_error w @
               [[JStr ''Error:'', JStr ''Cannot convert object to primitive value'']]\<rparr>)"
    using assms(1) by (simp add: search_throws)
  moreover have "SearchOptions ps \<longrightarrow> options_convert (Some ps)"
    by (simp add: SearchOptions_convert)
  moreover have "converted (JStr s) = s \<and> converted (JNum t) = t"
    by (simp add: converted_def)
  moreover have "urlencode term = term \<longleftrightarrow> list_all urlencoded_safe term"
    using urlencode_fixed urlencode_safe by blast
  ultimately show ?thesis by blast
qed

theorem search_request_urlencoded_witness:
  "''example query'' \<noteq> [] \<and> constructor (JStr ''test-api-key'') = Normal (client example_world)
   \<and> SearchOptions [(''size'', JNum ''10''), (''search_after'', JUndefined)]
   \<and> fetch_calls (snd (search (fetch_body JNull) ''example query''
        (Some [(''size'', JNum ''10''), (''search_after'', JUndefined)]) example_world))
     = [\<lparr>req_url = ''https://urlscan.io/api/v1/search?q=example+query&size=10'',
         req_method = ''GET'', req_headers = [(''API-Key'', JStr ''test-api-key'')], req_body = None\<rparr>]"
  using search_request_urlencoded [of "''example query''" "JStr ''test-api-key''" example_world
      "Some [(''size'', JNum ''10''), (''search_after'', JUndefined)]" "fetch_body JNull"
      "[(''size'', JNum ''10''), (''search_after'', JUndefined)]"]
  by (simp add: example_world_def example_client_def constructor_def urlencode_example_query
      SearchOptions_def options_convert_def converts_def converted_def
      urlencode_def urlencode_char_def urlencoded_safe_def)

text \<open>The query does not hold the term as it is: the term \<open>example query\<close> of the README
  is sent as \<open>q=example+query\<close>.\<close>

theorem search_term_not_verbatim:
  "req_url (last (fetch_calls (snd (search (fetch_body JNull) ''example query'' None example_world))))
     = ''https://urlscan.io/api/v1/search?q=example+query''
   \<and> req_url (last (fetch_calls (snd (search (fetch_body JNull) ''example query'' None example_world))))
     \<noteq> ''https://urlscan.io/api/v1/search?q=example query''"
  by (simp add: search_calls options_convert_def example_world_def example_client_def
      URLSearchParams_toString_q urlencode_example_query)

section \<open>The key in every request, and the client unchanged\<close>

text \<open>
  Claim C8. For each of \<open>scan\<close>, \<open>getScan\<close> and \<open>search\<close>, on every input and with every
  transport, a client constructed with a key is the same after the call (both fields),
  the calls to \<open>fetch\<close> made before are still there, and every request issued by the call
  has a header \<open>API-Key\<close> whose value is that key.
\<close>

theorem api_key_header_and_client_unchanged:
  assumes "constructor key = Normal (client w)"
    and "run = scan fetch url options \<or> run = getScan fetch id' \<or> run = search fetch term options'"
  shows "client (snd (run w)) = client w
     \<and> take (length (fetch_calls w)) (fetch_calls (snd (run w))) = fetch_calls w
     \<and> (\<forall>req \<in> set (drop (length (fetch_calls w)) (fetch_calls (snd (run w)))).
           map_of (req_headers req) ''API-Key'' = Some key)"
proof -
  have key: "apiKey (client w) = key"
    using constructor_Normal [OF assms(1)] by simp
  show ?thesis
  proof (cases "run = search fetch term options' \<and> (term = [] \<or> \<not> options_convert options')")
    case True
    show ?thesis
    proof (cases "term = []")
      case True
      then show ?thesis
        using \<open>run = search fetch term options' \<and> (term = [] \<or> \<not> options_convert options')\<close>
        by (simp add: search_def)
    next
      case False
      then show ?thesis
        using \<open>run = search fetch term options' \<and> (term = [] \<or> \<not> options_convert options')\<close>
        by (simp add: search_throws)
    qed
  next
    case False
    then have "run = scan fetch url options \<or> run = getScan fetch id'
        \<or> (term \<noteq> [] \<and> options_convert options' \<and> run = search fetch term options')"
      using assms(2) by blast
    then show ?thesis
    proof (elim disjE conjE)
      assume "run = scan fetch url options"
      then show ?thesis
        by (simp add: scan_calls key del: JSON_stringify.simps) (simp add: scan_def Let_def try_fetch_client)
    next
      assume "run = getScan fetch id'"
      then show ?thesis
        by (simp add: getScan_calls key) (simp add: getScan_def try_fetch_client)
    next
      assume "term \<noteq> []" "options_convert options'" "run = search fetch term options'"
      then show ?thesis
        by (simp add: search_calls key) (simp add: search_converts try_fetch_client)
    qed
  qed
qed

theorem api_key_header_and_client_unchanged_witness:
  "constructor (JStr ''test-api-key'') = Normal (client example_world)
   \<and> client (snd (search (fetch_status 403) ''example'' None example_world)) = example_client
   \<and> map (\<lambda>req. map_of (req_headers req) ''API-Key'')
        (fetch_calls (snd (search (fetch_status 403) ''example'' None example_world)))
      = [Some (JStr ''test-api-key'')]"
  using api_key_header_and_client_unchanged [of "JStr ''test-api-key''" example_world
      "search (fetch_status 403) ''example'' None" "fetch_status 403" "[]" None "[]" "''example''" None]
  by (simp add: example_world_def example_client_def constructor_def search_calls options_convert_def)

section \<open>Failures that are not swallowed\<close>

lemma get_message_Normal:
  "error \<noteq> JUndefined \<Longrightarrow> error \<noteq> JNull \<Longrightarrow> \<exists>message. get_message error = Normal message"
  by (cases error) simp_all

text \<open>Every failure whose value is neither \<open>undefined\<close> nor \<open>null\<close> is logged and
  swallowed: the promise is fulfilled with \<open>undefined\<close>.\<close>

lemma try_fetch_swallows:
  assumes "await_json (fetch req) = Throw e" and "e \<noteq> JUndefined" and "e \<noteq> JNull"
  shows "fst (try_fetch fetch req w) = Fulfilled JUndefined
     \<and> length (console_error (snd (try_fetch fetch req w))) = Suc (length (console_error w))
     \<and> hd (last (console_error (snd (try_fetch fetch req w)))) = JStr ''Error:''"
proof -
  obtain message where "get_message e = Normal message"
    using get_message_Normal [OF assms(2,3)] by blast
  then show ?thesis
    using assms(1) by (simp add: try_fetch_def Let_def catch_error_def handleError_def)
qed

text \<open>
  Claim C1 says that a failure of the transport never rejects the promise of the method.
  When \<open>fetch\<close> rejects with \<open>undefined\<close>, the \<open>catch\<close> clause calls
  \<open>handleError(undefined)\<close>, reading \<open>error.message\<close> throws a \<open>TypeError\<close> inside the
  \<open>catch\<close> clause, and the promise of each of the three methods is rejected with it;
  nothing is logged.
\<close>

theorem rejection_with_undefined_escapes:
  "scan (fetch_rejects JUndefined) ''https://example.com'' None example_world
     = (Rejected (JError ''TypeError'' ''Cannot read properties of undefined (reading 'message')''),
        example_world\<lparr>fetch_calls :=
          [\<lparr>req_url = ''https://urlscan.io/api/v1/scan'', req_method = ''POST'',
            req_headers = [(''API-Key'', JStr ''test-api-key''), (''Content-Type'', JStr ''application/json'')],
            req_body = JSON_stringify (JObj [(''url'', JStr ''https://example.com'')])\<rparr>]\<rparr>)
   \<and> getScan (fetch_rejects JUndefined) ''scan-id'' example_world
     = (Rejected (JError ''TypeError'' ''Cannot read properties of undefined (reading 'message')''),
        example_world\<lparr>fetch_calls :=
          [\<lparr>req_url = ''https://urlscan.io/api/v1/result/scan-id'', req_method = ''GET'',
            req_headers = [(''API-Key'', JStr ''test-api-key'')], req_body = None\<rparr>]\<rparr>)
   \<and> search (fetch_rejects JUndefined) ''example'' None example_world
     = (Rejected (JError ''TypeError'' ''Cannot read properties of undefined (reading 'message')''),
        example_world\<lparr>fetch_calls :=
          [\<lparr>req_url = ''https://urlscan.io/api/v1/search?q=example'', req_method = ''GET'',
            req_headers = [(''API-Key'', JStr ''test-api-key'')], req_body = None\<rparr>]\<rparr>)"
proof -
  have "urlencode ''example'' = ''example''"
    by (simp add: urlencode_def urlencode_char_def urlencoded_safe_def)
  then show ?thesis
    by (simp add: scan_def getScan_def search_def try_fetch_def await_json_def catch_error_def
        handleError_def fetch_rejects_def example_world_def example_client_def object_spread_def
        URLSearchParams_toString_q Let_def del: JSON_stringify.simps)
qed

end
